theory Spec2Isabelle
  imports Main "HOL-Library.Word" "HOL-Library.Sublist"
begin

section \<open>JavaScript strings and values\<close>

text \<open>
  A JavaScript string is a sequence of UTF-16 code units. String literals of the source
  are ASCII; \<open>str\<close> turns an ASCII literal into its code units.
\<close>

type_synonym js_string = "16 word list"

definition str :: "string \<Rightarrow> js_string" where
  "str s = map of_char s"

text \<open>\<^verbatim>\<open>s.startsWith(t)\<close>, \<^verbatim>\<open>s.endsWith(t)\<close>, \<^verbatim>\<open>s.includes(t)\<close>.\<close>

definition startsWith :: "js_string \<Rightarrow> js_string \<Rightarrow> bool" where
  "startsWith s t = prefix t s"

definition endsWith :: "js_string \<Rightarrow> js_string \<Rightarrow> bool" where
  "endsWith s t = suffix t s"

definition includes_str :: "js_string \<Rightarrow> js_string \<Rightarrow> bool" where
  "includes_str s t = sublist t s"

text \<open>
  \<^verbatim>\<open>s.trim()\<close> removes the leading and trailing code units that ECMAScript calls
  WhiteSpace or LineTerminator: TAB, LF, VT, FF, CR, SPACE, NBSP, U+1680, U+2000 to U+200A,
  U+2028, U+2029, U+202F, U+205F, U+3000 and U+FEFF.
\<close>

definition isWhiteSpace :: "16 word \<Rightarrow> bool" where
  "isWhiteSpace c =
     (c = 0x0009 \<or> c = 0x000A \<or> c = 0x000B \<or> c = 0x000C \<or> c = 0x000D \<or> c = 0x0020 \<or>
      c = 0x00A0 \<or> c = 0x1680 \<or> (0x2000 \<le> c \<and> c \<le> 0x200A) \<or> c = 0x2028 \<or> c = 0x2029 \<or>
      c = 0x202F \<or> c = 0x205F \<or> c = 0x3000 \<or> c = 0xFEFF)"

definition trim :: "js_string \<Rightarrow> js_string" where
  "trim s = rev (dropWhile isWhiteSpace (rev (dropWhile isWhiteSpace s)))"

text \<open>
  The values an \<^verbatim>\<open>id\<close> can hold at run time, with JavaScript's \<^verbatim>\<open>!v\<close> (through
  \<open>truthy\<close>) and \<^verbatim>\<open>typeof v\<close>. \<open>the_string\<close> reads the string of a value whose
  \<^verbatim>\<open>typeof\<close> is \<^verbatim>\<open>'string'\<close>; the guards below reach it only behind that test.
\<close>

datatype js_value = JUndefined | JNull | JBoolean bool | JString js_string

fun truthy :: "js_value \<Rightarrow> bool" where
  "truthy JUndefined = False"
| "truthy JNull = False"
| "truthy (JBoolean b) = b"
| "truthy (JString s) = (s \<noteq> [])"

fun typeof :: "js_value \<Rightarrow> js_string" where
  "typeof JUndefined = str ''undefined''"
| "typeof JNull = str ''object''"
| "typeof (JBoolean b) = str ''boolean''"
| "typeof (JString s) = str ''string''"

fun the_string :: "js_value \<Rightarrow> js_string" where
  "the_string (JString s) = s"
| "the_string _ = []"

text \<open>\<^verbatim>\<open>h || ''\<close> on an optional header: an absent or empty header reads as the empty string.\<close>

fun or_empty :: "js_string option \<Rightarrow> js_string" where
  "or_empty None = []"
| "or_empty (Some s) = (if s = [] then [] else s)"

section \<open>Requests, responses and errors\<close>

datatype json =
    JsonNull
  | JsonString js_string
  | JsonArray "json list"
  | JsonObject "(js_string \<times> json) list"

datatype body = JsonBody json | OtherBody js_string

record response =
  status :: nat
  body :: body

text \<open>
  \<^verbatim>\<open>Error\<close> carries a message; \<^verbatim>\<open>ApiError\<close> extends it with a status code and sets its
  name to \<^verbatim>\<open>'ApiError'\<close>.
\<close>

datatype js_error = Error js_string | ApiError nat js_string

fun message :: "js_error \<Rightarrow> js_string" where
  "message (Error m) = m"
| "message (ApiError c m) = m"

fun name :: "js_error \<Rightarrow> js_string" where
  "name (Error m) = str ''Error''"
| "name (ApiError c m) = str ''ApiError''"

text \<open>
  What a middleware function does with a request: \<^verbatim>\<open>next()\<close>, \<^verbatim>\<open>next(err)\<close>, or a
  response sent without calling \<^verbatim>\<open>next\<close>.
\<close>

datatype outcome = Next | NextError js_error | Responded response

text \<open>
  The request method: \<^verbatim>\<open>GET\<close> (with \<^verbatim>\<open>HEAD\<close>, which Express gives to the handlers of
  \<^verbatim>\<open>GET\<close>), \<^verbatim>\<open>POST\<close>, or any other.
\<close>

datatype http_method = GET | POST | OTHER

text \<open>
  The registered path a request's URL falls under, as Express's matcher decides it:
  \<^verbatim>\<open>/api-docs\<close>, \<^verbatim>\<open>/users/:id\<close> with the decoded parameter, any other path below
  \<^verbatim>\<open>/users\<close>, \<^verbatim>\<open>/health\<close>, \<^verbatim>\<open>/graphql\<close>, or none of them.
\<close>

datatype route = ApiDocs | UsersId js_string | UsersOther | Health | Graphql | Unrouted

text \<open>
  A request: method, route, the three headers the admission filter reads, and the
  message of the error \<^verbatim>\<open>express.json()\<close> raises on the request's body, if it raises one.
\<close>

record request =
  req_method :: http_method
  route :: route
  host :: "js_string option"
  origin :: "js_string option"
  referer :: "js_string option"
  body_error :: "js_string option"

section \<open>The admission filter\<close>

definition allowedHosts :: "js_string list" where
  "allowedHosts =
     [str ''example.com'', str ''www.example.com'', str ''localhost:3000'', str ''127.0.0.1:3000'']"

definition isAllowedHost :: "request \<Rightarrow> bool" where
  "isAllowedHost req =
     list_ex (\<lambda>allowed. or_empty (host req) = allowed
                \<or> endsWith (or_empty (host req)) (str ''.'' @ allowed)) allowedHosts"

definition isAllowedOrigin :: "request \<Rightarrow> bool" where
  "isAllowedOrigin req =
     list_ex (\<lambda>allowed. includes_str (or_empty (origin req)) allowed
                \<or> or_empty (origin req) = str ''http://'' @ allowed
                \<or> or_empty (origin req) = str ''https://'' @ allowed) allowedHosts"

definition isAllowedReferer :: "request \<Rightarrow> bool" where
  "isAllowedReferer req =
     list_ex (\<lambda>allowed. includes_str (or_empty (referer req)) allowed
                \<or> startsWith (or_empty (referer req)) (str ''http://'' @ allowed)
                \<or> startsWith (or_empty (referer req)) (str ''https://'' @ allowed)) allowedHosts"

definition forbidden :: response where
  "forbidden =
     \<lparr>status = 403,
      body = JsonBody (JsonObject
        [(str ''error'', JsonString (str ''Forbidden'')),
         (str ''message'', JsonString (str
            ''Access denied. This API only accepts traffic from example.com or localhost:3000.''))])\<rparr>"

definition domainRestriction :: "request \<Rightarrow> outcome" where
  "domainRestriction req =
     (if isAllowedHost req \<or> isAllowedOrigin req \<or> isAllowedReferer req
      then Next
      else Responded forbidden)"

section \<open>The user store and the lookup service\<close>

record user =
  user_id :: js_string
  user_name :: js_string

text \<open>
  The \<^verbatim>\<open>User\<close> table maps the primary key \<^verbatim>\<open>id\<close> to \<^verbatim>\<open>name\<close>. \<open>failure\<close> is the
  error the database driver raises on a read, if it raises one. \<open>queries\<close> records
  the argument of every \<^verbatim>\<open>findUnique\<close> call, in order.
\<close>

record database =
  table :: "js_string \<rightharpoonup> js_string"
  failure :: "js_error option"
  queries :: "js_string list"

definition findUnique :: "js_string \<Rightarrow> database \<Rightarrow> (js_error + user option) \<times> database" where
  "findUnique i db =
     ((case failure db of
         Some e \<Rightarrow> Inl e
       | None \<Rightarrow> Inr (map_option (\<lambda>n. \<lparr>user_id = i, user_name = n\<rparr>) (table db i))),
      db\<lparr>queries := queries db @ [i]\<rparr>)"

definition findById :: "js_string \<Rightarrow> database \<Rightarrow> (js_error + user option) \<times> database" where
  "findById i db = findUnique i db"

section \<open>The REST surface\<close>

definition validateUserId :: "js_value \<Rightarrow> outcome" where
  "validateUserId v =
     (if \<not> truthy v \<or> typeof v \<noteq> str ''string'' \<or> length (trim (the_string v)) = 0
      then NextError (ApiError 400 (str ''Invalid user ID provided''))
      else Next)"

definition user_json :: "user \<Rightarrow> json" where
  "user_json u =
     JsonObject [(str ''id'', JsonString (user_id u)), (str ''name'', JsonString (user_name u))]"

text \<open>The 404 body; \<open>0x27\<close> is the apostrophe around the interpolated id.\<close>

definition not_found :: "js_string \<Rightarrow> response" where
  "not_found i =
     \<lparr>status = 404,
      body = JsonBody (JsonObject
        [(str ''error'', JsonString (str ''Not Found'')),
         (str ''message'', JsonString (str ''User with ID '' @ [0x27] @ i @ [0x27] @ str '' not found''))])\<rparr>"

text \<open>The handler of \<^verbatim>\<open>router.get('/:id', ...)\<close>: the \<^verbatim>\<open>try\<close> block and its \<^verbatim>\<open>catch\<close>.\<close>

definition getUser :: "js_value \<Rightarrow> database \<Rightarrow> outcome \<times> database" where
  "getUser v db =
     (case findById (the_string v) db of
        (Inl e, db') \<Rightarrow> (NextError e, db')
      | (Inr None, db') \<Rightarrow> (Responded (not_found (the_string v)), db')
      | (Inr (Some u), db') \<Rightarrow> (Responded \<lparr>status = 200, body = JsonBody (user_json u)\<rparr>, db'))"

text \<open>The route's chain: \<^verbatim>\<open>validateUserId\<close>, then the handler if it called \<^verbatim>\<open>next()\<close>.\<close>

definition getUserRoute :: "js_value \<Rightarrow> database \<Rightarrow> outcome \<times> database" where
  "getUserRoute v db =
     (case validateUserId v of
        Next \<Rightarrow> getUser v db
      | out \<Rightarrow> (out, db))"

definition userRoutes :: "request \<Rightarrow> database \<Rightarrow> outcome \<times> database" where
  "userRoutes req db =
     (case route req of
        UsersId i \<Rightarrow> (if req_method req = GET then getUserRoute (JString i) db else (Next, db))
      | _ \<Rightarrow> (Next, db))"

section \<open>The error normalizer\<close>

definition internal_error :: response where
  "internal_error =
     \<lparr>status = 500,
      body = JsonBody (JsonObject
        [(str ''error'', JsonString (str ''Internal Server Error'')),
         (str ''message'', JsonString (str ''An unexpected error occurred''))])\<rparr>"

text \<open>The decimal digits of a number, as a template literal prints it.\<close>

fun decimal :: "nat \<Rightarrow> js_string" where
  "decimal n =
     (if n < 10 then [of_nat (48 + n)] else decimal (n div 10) @ [of_nat (48 + n mod 10)])"

text \<open>
  \<^verbatim>\<open>res.status(c).json(b)\<close> with a status code that the handler does not fix itself
  (Express 4.18.2 on Node). A code outside 100 to 999 makes Node throw the RangeError
  \<^verbatim>\<open>Invalid status code: <c>\<close> when the headers are written, so the call throws and
  nothing is sent. The codes 204 and 304, 205, and 100 to 199 go out without a body. Every
  other code goes out with the JSON body.
\<close>

definition status_json :: "nat \<Rightarrow> json \<Rightarrow> js_error + response" where
  "status_json c b =
     (if c < 100 \<or> 999 < c then Inl (Error (str ''Invalid status code: '' @ decimal c))
      else if c < 200 \<or> c = 204 \<or> c = 205 \<or> c = 304 then Inr \<lparr>status = c, body = OtherBody []\<rparr>
      else Inr \<lparr>status = c, body = JsonBody b\<rparr>)"

text \<open>
  \<^verbatim>\<open>errorHandler\<close> writes \<^verbatim>\<open>'Error:'\<close> and the error's message to the console, then
  responds. The result is the console line and either the response or the error that
  sending it throws.
\<close>

definition errorHandler :: "js_error \<Rightarrow> js_string list \<times> (js_error + response)" where
  "errorHandler err =
     ([str ''Error:'', message err],
      (case err of
         ApiError statusCode m \<Rightarrow>
           status_json statusCode (JsonObject
             [(str ''error'', JsonString (name err)),
              (str ''message'', JsonString (message err))])
       | Error m \<Rightarrow> Inr internal_error))"

section \<open>The GraphQL resolver\<close>

definition user_resolver :: "js_value \<Rightarrow> database \<Rightarrow> (js_error + user option) \<times> database" where
  "user_resolver v db =
     (if \<not> truthy v \<or> typeof v \<noteq> str ''string'' \<or> length (trim (the_string v)) = 0
      then (Inl (Error (str ''Invalid user ID provided'')), db)
      else findById (the_string v) db)"

text \<open>
  The response of the GraphQL protocol to \<^verbatim>\<open>{ user(id: ...) { id name } }\<close>: a resolver
  that returns gives \<^verbatim>\<open>data.user\<close> its value and no \<^verbatim>\<open>errors\<close> entry; a resolver that
  throws gives \<^verbatim>\<open>data.user = null\<close> and an \<^verbatim>\<open>errors\<close> entry, of which the message is
  kept here.
\<close>

definition user_query :: "js_value \<Rightarrow> database \<Rightarrow> json \<times> database" where
  "user_query v db =
     (case user_resolver v db of
        (Inr None, db') \<Rightarrow>
          (JsonObject [(str ''data'', JsonObject [(str ''user'', JsonNull)])], db')
      | (Inr (Some u), db') \<Rightarrow>
          (JsonObject [(str ''data'', JsonObject [(str ''user'', user_json u)])], db')
      | (Inl e, db') \<Rightarrow>
          (JsonObject
             [(str ''errors'', JsonArray [JsonObject [(str ''message'', JsonString (message e))]]),
              (str ''data'', JsonObject [(str ''user'', JsonNull)])], db'))"

section \<open>The application\<close>

text \<open>
  The layers that the constructor of \<^verbatim>\<open>App\<close> and \<^verbatim>\<open>bootstrap\<close> register on the
  Express instance, in the order of registration.
\<close>

datatype layer =
    JsonParser | DomainRestriction | SwaggerUi | UserRoutes | HealthRoute | ErrorHandler
  | GraphqlMount

text \<open>
  What the application takes from outside: the clock read by the health route, the pages
  of the Swagger UI, the Apollo middleware, and the response Express itself gives when no
  layer answers (with the pending error, if there is one).
\<close>

record env =
  now :: js_string
  swaggerUi :: "request \<Rightarrow> response"
  apollo :: "request \<Rightarrow> database \<Rightarrow> response \<times> database"
  finalhandler :: "js_error option \<Rightarrow> request \<Rightarrow> response"

definition health :: "env \<Rightarrow> response" where
  "health e =
     \<lparr>status = 200,
      body = JsonBody (JsonObject
        [(str ''status'', JsonString (str ''healthy'')),
         (str ''timestamp'', JsonString (now e))])\<rparr>"

text \<open>Only \<^verbatim>\<open>errorHandler\<close> takes four arguments, which makes it an error-handling layer.\<close>

fun is_error_layer :: "layer \<Rightarrow> bool" where
  "is_error_layer ErrorHandler = True"
| "is_error_layer _ = False"

fun run_layer :: "env \<Rightarrow> layer \<Rightarrow> request \<Rightarrow> database \<Rightarrow> outcome \<times> database" where
  "run_layer e JsonParser req db =
     (case body_error req of None \<Rightarrow> (Next, db) | Some m \<Rightarrow> (NextError (Error m), db))"
| "run_layer e DomainRestriction req db = (domainRestriction req, db)"
| "run_layer e SwaggerUi req db =
     (if route req = ApiDocs then (Responded (swaggerUi e req), db) else (Next, db))"
| "run_layer e UserRoutes req db = userRoutes req db"
| "run_layer e HealthRoute req db =
     (if route req = Health \<and> req_method req = GET then (Responded (health e), db) else (Next, db))"
| "run_layer e GraphqlMount req db =
     (if route req = Graphql
      then (case domainRestriction req of
              Next \<Rightarrow> (case apollo e req db of (r, db') \<Rightarrow> (Responded r, db'))
            | out \<Rightarrow> (out, db))
      else (Next, db))"
| "run_layer e ErrorHandler req db = (Next, db)"

text \<open>
  Express walks the stack in order. Without a pending error it runs the ordinary layers
  and skips the error-handling ones; after \<^verbatim>\<open>next(err)\<close> it skips the ordinary layers
  and gives the error to the next error-handling one. An error that a handler throws is
  caught and passed on as \<^verbatim>\<open>next(err)\<close> would pass it.
\<close>

fun dispatch :: "env \<Rightarrow> layer list \<Rightarrow> js_error option \<Rightarrow> request \<Rightarrow> database
    \<Rightarrow> response \<times> database" where
  "dispatch e [] pending req db = (finalhandler e pending req, db)"
| "dispatch e (l # ls) (Some err) req db =
     (if is_error_layer l
      then (case snd (errorHandler err) of
              Inr r \<Rightarrow> (r, db)
            | Inl thrown \<Rightarrow> dispatch e ls (Some thrown) req db)
      else dispatch e ls (Some err) req db)"
| "dispatch e (l # ls) None req db =
     (if is_error_layer l then dispatch e ls None req db
      else (case run_layer e l req db of
              (Next, db') \<Rightarrow> dispatch e ls None req db'
            | (NextError err, db') \<Rightarrow> dispatch e ls (Some err) req db'
            | (Responded r, db') \<Rightarrow> (r, db')))"

subsection \<open>The singleton\<close>

definition initializeMiddleware :: "layer list \<Rightarrow> layer list" where
  "initializeMiddleware s = s @ [JsonParser, DomainRestriction]"

text \<open>\<open>swagger\<close> says whether \<^verbatim>\<open>YAML.load\<close> found and read \<^verbatim>\<open>swagger.yaml\<close>.\<close>

definition initializeRoutes :: "bool \<Rightarrow> layer list \<Rightarrow> layer list" where
  "initializeRoutes swagger s = (if swagger then s @ [SwaggerUi] else s) @ [UserRoutes, HealthRoute]"

definition initializeErrorHandling :: "layer list \<Rightarrow> layer list" where
  "initializeErrorHandling s = s @ [ErrorHandler]"

text \<open>
  A process: the static field \<^verbatim>\<open>App.instance\<close> (a reference, or undefined) and the heap of
  \<^verbatim>\<open>App\<close> objects, each one the stack of its Express instance. The constructor allocates
  a new object, so the length of the heap counts its runs.
\<close>

record process =
  App_instance :: "nat option"
  heap :: "layer list list"

definition new_App :: "bool \<Rightarrow> process \<Rightarrow> nat \<times> process" where
  "new_App swagger p =
     (length (heap p),
      p\<lparr>heap := heap p @ [initializeErrorHandling (initializeRoutes swagger (initializeMiddleware []))]\<rparr>)"

definition getInstance :: "bool \<Rightarrow> process \<Rightarrow> nat \<times> process" where
  "getInstance swagger p =
     (case App_instance p of
        None \<Rightarrow> (case new_App swagger p of (a, p') \<Rightarrow> (a, p'\<lparr>App_instance := Some a\<rparr>))
      | Some a \<Rightarrow> (a, p))"

text \<open>\<^verbatim>\<open>app.use(...)\<close> on the Express instance of the \<^verbatim>\<open>App\<close> at reference \<open>a\<close>.\<close>

definition use :: "nat \<Rightarrow> layer \<Rightarrow> process \<Rightarrow> process" where
  "use a l p = (if a < length (heap p) then p\<lparr>heap := (heap p)[a := heap p ! a @ [l]]\<rparr> else p)"

definition bootstrap :: "bool \<Rightarrow> process \<Rightarrow> nat \<times> process" where
  "bootstrap swagger p = (case getInstance swagger p of (a, p') \<Rightarrow> (a, use a GraphqlMount p'))"

definition start :: process where
  "start = \<lparr>App_instance = None, heap = []\<rparr>"

text \<open>A run of calls of \<^verbatim>\<open>App.getInstance()\<close>, one per entry, with the references returned.\<close>

fun getInstances :: "bool list \<Rightarrow> process \<Rightarrow> nat list \<times> process" where
  "getInstances [] p = ([], p)"
| "getInstances (swagger # rest) p =
     (case getInstance swagger p of
        (a, p') \<Rightarrow> (case getInstances rest p' of (as, p'') \<Rightarrow> (a # as, p'')))"

section \<open>The admission rule in the words of the specification\<close>

text \<open>An absent header is treated as the empty string.\<close>

definition header :: "js_string option \<Rightarrow> js_string" where
  "header h = (case h of None \<Rightarrow> [] | Some s \<Rightarrow> s)"

text \<open>
  The Host equals an allowed entry or ends with a dot followed by an allowed entry.
\<close>

definition spec_host_rule :: "js_string \<Rightarrow> bool" where
  "spec_host_rule h = (\<exists>a \<in> set allowedHosts. h = a \<or> (\<exists>p. h = p @ str ''.'' @ a))"

text \<open>
  The Origin contains an allowed entry as a substring, or equals \<^verbatim>\<open>http://\<close> or
  \<^verbatim>\<open>https://\<close> followed by the entry.
\<close>

definition spec_origin_rule :: "js_string \<Rightarrow> bool" where
  "spec_origin_rule orig =
     (\<exists>a \<in> set allowedHosts.
        (\<exists>p q. orig = p @ a @ q) \<or> orig = str ''http://'' @ a \<or> orig = str ''https://'' @ a)"

text \<open>
  The Referer contains an allowed entry as a substring, or starts with \<^verbatim>\<open>http://\<close> or
  \<^verbatim>\<open>https://\<close> followed by the entry.
\<close>

definition spec_referer_rule :: "js_string \<Rightarrow> bool" where
  "spec_referer_rule r =
     (\<exists>a \<in> set allowedHosts.
        (\<exists>p q. r = p @ a @ q) \<or> (\<exists>q. r = str ''http://'' @ a @ q)
        \<or> (\<exists>q. r = str ''https://'' @ a @ q))"

definition spec_allow :: "request \<Rightarrow> bool" where
  "spec_allow req =
     (spec_host_rule (header (host req)) \<or> spec_origin_rule (header (origin req))
      \<or> spec_referer_rule (header (referer req)))"

section \<open>Concrete inputs\<close>

text \<open>The rows that \<^verbatim>\<open>prisma/seed.ts\<close> creates.\<close>

definition seed :: database where
  "seed =
     \<lparr>table = [str ''user1'' \<mapsto> str ''John Doe'', str ''user2'' \<mapsto> str ''Jane Smith'',
               str ''user3'' \<mapsto> str ''Bob Wilson''],
      failure = None,
      queries = []\<rparr>"

definition page :: response where
  "page = \<lparr>status = 200, body = OtherBody []\<rparr>"

definition env0 :: env where
  "env0 =
     \<lparr>now = str ''2024-01-01T00:00:00.000Z'',
      swaggerUi = (\<lambda>req. page),
      apollo = (\<lambda>req db. (page, db)),
      finalhandler = (\<lambda>pending req. \<lparr>status = 404, body = OtherBody []\<rparr>)\<rparr>"

text \<open>\<^verbatim>\<open>GET /health\<close> with \<^verbatim>\<open>Host: evil.com\<close>.\<close>

definition evil_health :: request where
  "evil_health =
     \<lparr>req_method = GET, route = Health, host = Some (str ''evil.com''), origin = None,
      referer = None, body_error = None\<rparr>"

text \<open>The same request with a body that \<^verbatim>\<open>express.json()\<close> refuses.\<close>

definition evil_health_bad_body :: request where
  "evil_health_bad_body = evil_health\<lparr>body_error := Some (str ''Unexpected end of JSON input'')\<rparr>"

text \<open>Requests from \<^verbatim>\<open>notexample.com.evil.org\<close>, named in Origin or in Referer.\<close>

definition lookalike_origin :: request where
  "lookalike_origin =
     \<lparr>req_method = GET, route = UsersId (str ''user1''),
      host = Some (str ''notexample.com.evil.org''),
      origin = Some (str ''https://notexample.com.evil.org''),
      referer = None, body_error = None\<rparr>"

definition lookalike_referer :: request where
  "lookalike_referer =
     \<lparr>req_method = GET, route = UsersId (str ''user1''),
      host = Some (str ''notexample.com.evil.org''),
      origin = None,
      referer = Some (str ''https://notexample.com.evil.org/page''), body_error = None\<rparr>"

text \<open>An id of blanks only: space, tab, no-break space, em space.\<close>

definition blank_id :: js_string where
  "blank_id = [0x0020, 0x0009, 0x00A0, 0x2003]"

text \<open>\<^verbatim>\<open>' user1'\<close>, as \<^verbatim>\<open>GET /users/%20user1\<close> gives it.\<close>

definition padded_id :: js_string where
  "padded_id = str '' user1''"

definition get_user1 :: request where
  "get_user1 =
     \<lparr>req_method = GET, route = UsersId (str ''user1''), host = Some (str ''localhost:3000''),
      origin = None, referer = None, body_error = None\<rparr>"

definition get_unknown :: request where
  "get_unknown = get_user1\<lparr>route := UsersId (str ''unknown'')\<rparr>"

definition get_blank :: request where
  "get_blank = get_user1\<lparr>route := UsersId blank_id\<rparr>"

section \<open>The stack that serves requests\<close>

text \<open>The stack of the Express instance once \<^verbatim>\<open>bootstrap\<close> has run in a new process.\<close>

definition served :: "bool \<Rightarrow> layer list" where
  "served swagger = (case bootstrap swagger start of (a, p) \<Rightarrow> heap p ! a)"

section \<open>Properties\<close>

subsection \<open>Strings and validation\<close>

lemma trim_Nil: "trim [] = []"
  by (simp add: trim_def)

text \<open>A string trims to the empty string exactly when all its code units are blanks.\<close>

lemma trim_Nil_iff: "(trim s = []) = (\<forall>c\<in>set s. isWhiteSpace c)"
proof
  assume "trim s = []"
  then have "dropWhile isWhiteSpace (rev (dropWhile isWhiteSpace s)) = []"
    by (simp add: trim_def)
  then have "\<forall>c\<in>set (dropWhile isWhiteSpace s). isWhiteSpace c"
    by (simp only: dropWhile_eq_Nil_conv set_rev)
  then have "dropWhile isWhiteSpace s = []"
    using hd_dropWhile [of isWhiteSpace s] by (cases "dropWhile isWhiteSpace s") auto
  then show "\<forall>c\<in>set s. isWhiteSpace c"
    by (simp only: dropWhile_eq_Nil_conv)
next
  assume "\<forall>c\<in>set s. isWhiteSpace c"
  then have "dropWhile isWhiteSpace s = []"
    by (simp only: dropWhile_eq_Nil_conv)
  then show "trim s = []"
    by (simp only: trim_def rev.simps dropWhile.simps)
qed

lemma typeof_not_string:
  "str ''undefined'' \<noteq> str ''string''" "str ''object'' \<noteq> str ''string''"
  "str ''boolean'' \<noteq> str ''string''"
  by (simp_all add: str_def)

lemma validateUserId_Next: "(validateUserId v = Next) = (\<exists>s. v = JString s \<and> trim s \<noteq> [])"
  by (cases v) (auto simp: validateUserId_def trim_Nil typeof_not_string)

lemma validateUserId_reject:
  "validateUserId v \<noteq> Next \<Longrightarrow>
     validateUserId v = NextError (ApiError 400 (str ''Invalid user ID provided''))"
  by (simp add: validateUserId_def split: if_splits)

lemma user_resolver_pass: "trim s \<noteq> [] \<Longrightarrow> user_resolver (JString s) db = findById s db"
  by (auto simp: user_resolver_def trim_Nil)

lemma user_resolver_reject:
  "\<not> (\<exists>s. v = JString s \<and> trim s \<noteq> []) \<Longrightarrow>
     user_resolver v db = (Inl (Error (str ''Invalid user ID provided'')), db)"
  by (cases v) (auto simp: user_resolver_def trim_Nil typeof_not_string)

subsection \<open>The lookup service and the route\<close>

lemma findById_queries: "queries (snd (findById i db)) = queries db @ [i]"
  by (simp add: findById_def findUnique_def)

lemma findById_changes: "findById i db \<noteq> (r, db)"
proof
  assume "findById i db = (r, db)"
  then have "queries (snd (findById i db)) = queries db"
    by simp
  then show False
    by (simp add: findById_queries)
qed

lemma findById_result:
  "failure db = None \<Longrightarrow>
     fst (findById i db) = Inr (map_option (\<lambda>n. \<lparr>user_id = i, user_name = n\<rparr>) (table db i))"
  by (simp add: findById_def findUnique_def)

lemma getUserRoute_pass: "trim s \<noteq> [] \<Longrightarrow> getUserRoute (JString s) db = getUser (JString s) db"
  using validateUserId_Next [of "JString s"] by (simp add: getUserRoute_def)

lemma getUserRoute_reject:
  "trim s = [] \<Longrightarrow>
     getUserRoute (JString s) db = (NextError (ApiError 400 (str ''Invalid user ID provided'')), db)"
  by (simp add: getUserRoute_def validateUserId_def)

lemma getUser_queries: "queries (snd (getUser v db)) = queries db @ [the_string v]"
  by (simp add: getUser_def findById_def findUnique_def split: option.splits)

lemma getUser_found:
  "failure db = None \<Longrightarrow> table db i = Some n \<Longrightarrow>
     getUser (JString i) db =
       (Responded \<lparr>status = 200, body = JsonBody (JsonObject
         [(str ''id'', JsonString i), (str ''name'', JsonString n)])\<rparr>,
        db\<lparr>queries := queries db @ [i]\<rparr>)"
  by (simp add: getUser_def findById_def findUnique_def user_json_def)

lemma getUser_absent:
  "failure db = None \<Longrightarrow> table db i = None \<Longrightarrow>
     getUser (JString i) db = (Responded (not_found i), db\<lparr>queries := queries db @ [i]\<rparr>)"
  by (simp add: getUser_def findById_def findUnique_def)

lemma userRoutes_get:
  "route req = UsersId i \<Longrightarrow> req_method req = GET \<Longrightarrow>
     userRoutes req db = getUserRoute (JString i) db"
  by (simp add: userRoutes_def)

lemma user_query_absent:
  "fst (user_resolver v db) = Inr None \<Longrightarrow>
     fst (user_query v db) = JsonObject [(str ''data'', JsonObject [(str ''user'', JsonNull)])]"
  by (cases "user_resolver v db") (simp add: user_query_def)

lemma user_query_found:
  "fst (user_resolver v db) = Inr (Some u) \<Longrightarrow>
     fst (user_query v db) = JsonObject [(str ''data'', JsonObject [(str ''user'', user_json u)])]"
  by (cases "user_resolver v db") (simp add: user_query_def)

lemma errors_not_data: "str ''errors'' \<noteq> str ''data''"
  by (simp add: str_def)

subsection \<open>The admission filter\<close>

lemma or_empty_header: "or_empty h = header h"
  by (cases h) (simp_all add: header_def)

lemma isAllowedHost_spec: "isAllowedHost req = spec_host_rule (header (host req))"
  by (simp add: isAllowedHost_def spec_host_rule_def list_ex_iff endsWith_def suffix_def
      or_empty_header)

lemma isAllowedOrigin_spec: "isAllowedOrigin req = spec_origin_rule (header (origin req))"
  by (simp add: isAllowedOrigin_def spec_origin_rule_def list_ex_iff includes_str_def sublist_def
      or_empty_header)

lemma isAllowedReferer_spec: "isAllowedReferer req = spec_referer_rule (header (referer req))"
  by (simp add: isAllowedReferer_def spec_referer_rule_def list_ex_iff includes_str_def
      sublist_def startsWith_def prefix_def or_empty_header)

lemma domainRestriction_allow: "(domainRestriction req = Next) = spec_allow req"
  by (simp add: domainRestriction_def spec_allow_def isAllowedHost_spec isAllowedOrigin_spec
      isAllowedReferer_spec)

lemma domainRestriction_deny: "\<not> spec_allow req \<Longrightarrow> domainRestriction req = Responded forbidden"
  using domainRestriction_allow [of req] by (simp add: domainRestriction_def split: if_splits)

lemma dispatch_deny:
  "domainRestriction req = Responded r \<Longrightarrow>
     dispatch e (DomainRestriction # ls) None req db = (r, db)"
  by simp

subsection \<open>The error normalizer\<close>

text \<open>A status code from 200 to 999 other than 204, 205 and 304 goes out with its body.\<close>

lemma status_json_body:
  "200 \<le> c \<Longrightarrow> c \<le> 999 \<Longrightarrow> c \<noteq> 204 \<Longrightarrow> c \<noteq> 205 \<Longrightarrow> c \<noteq> 304 \<Longrightarrow>
     status_json c b = Inr \<lparr>status = c, body = JsonBody b\<rparr>"
  by (simp add: status_json_def)

text \<open>
  The codes that the handlers of the repository fix themselves, 200, 400, 403, 404 and 500,
  are among them.
\<close>

lemma status_json_fixed:
  "status_json 200 b = Inr \<lparr>status = 200, body = JsonBody b\<rparr>"
  "status_json 400 b = Inr \<lparr>status = 400, body = JsonBody b\<rparr>"
  "status_json 403 b = Inr \<lparr>status = 403, body = JsonBody b\<rparr>"
  "status_json 404 b = Inr \<lparr>status = 404, body = JsonBody b\<rparr>"
  "status_json 500 b = Inr \<lparr>status = 500, body = JsonBody b\<rparr>"
  by (simp_all add: status_json_def)

lemma errorHandler_invalid_id:
  "snd (errorHandler (ApiError 400 (str ''Invalid user ID provided''))) =
     Inr \<lparr>status = 400, body = JsonBody (JsonObject
       [(str ''error'', JsonString (str ''ApiError'')),
        (str ''message'', JsonString (str ''Invalid user ID provided''))])\<rparr>"
  by (simp add: errorHandler_def status_json_fixed)

subsection \<open>The served stack\<close>

lemma getInstance_start:
  "getInstance swagger start =
     (0, \<lparr>App_instance = Some 0,
          heap = [initializeErrorHandling (initializeRoutes swagger (initializeMiddleware []))]\<rparr>)"
  by (simp add: getInstance_def new_App_def start_def)

lemma getInstance_again: "App_instance p = Some a \<Longrightarrow> getInstance swagger p = (a, p)"
  by (simp add: getInstance_def)

lemma getInstances_again:
  "App_instance p = Some a \<Longrightarrow> getInstances envs p = (replicate (length envs) a, p)"
  by (induction envs) (simp_all add: getInstance_again)

lemma constructed_stack:
  "initializeErrorHandling (initializeRoutes swagger (initializeMiddleware [])) =
     [JsonParser, DomainRestriction] @ (if swagger then [SwaggerUi] else [])
     @ [UserRoutes, HealthRoute, ErrorHandler]"
  by (simp add: initializeMiddleware_def initializeRoutes_def initializeErrorHandling_def)

lemma served_stack:
  "served swagger =
     [JsonParser, DomainRestriction] @ (if swagger then [SwaggerUi] else [])
     @ [UserRoutes, HealthRoute, ErrorHandler, GraphqlMount]"
  by (simp add: served_def bootstrap_def getInstance_start use_def constructed_stack)

lemma served_denied:
  "domainRestriction req = Responded r \<Longrightarrow> body_error req = None \<Longrightarrow>
     dispatch e (served swagger) None req db = (r, db)"
  by (simp add: served_stack)

lemma served_bad_body:
  "body_error req = Some m \<Longrightarrow> dispatch e (served swagger) None req db = (internal_error, db)"
  by (simp add: served_stack errorHandler_def)

text \<open>
  Through the whole stack: a request the body parser and the admission filter pass on
  reaches the route of \<^verbatim>\<open>GET /users/:id\<close>, and an error of the route reaches the error
  normalizer.
\<close>

lemma served_users:
  "body_error req = None \<Longrightarrow> domainRestriction req = Next \<Longrightarrow> route req = UsersId i \<Longrightarrow>
   req_method req = GET \<Longrightarrow>
     dispatch e (served swagger) None req db =
       (case getUserRoute (JString i) db of
          (Responded r, db') \<Rightarrow> (r, db')
        | (NextError err, db') \<Rightarrow> dispatch e [ErrorHandler, GraphqlMount] (Some err) req db'
        | (Next, db') \<Rightarrow> dispatch e [GraphqlMount] None req db')"
  by (simp add: served_stack userRoutes_get split: outcome.splits prod.splits)


subsection \<open>Facts about the concrete inputs\<close>

lemma seed_rows:
  "failure seed = None" "table seed (str ''user1'') = Some (str ''John Doe'')"
  "table seed (str ''unknown'') = None" "queries seed = []"
  by (simp_all add: seed_def str_def)

lemma trim_ids: "trim (str ''user1'') \<noteq> []" "trim (str ''unknown'') \<noteq> []"
  by (simp_all add: trim_def str_def isWhiteSpace_def)

lemma get_user1_fields:
  "route get_user1 = UsersId (str ''user1'')" "req_method get_user1 = GET"
  "body_error get_user1 = None"
  by (simp_all add: get_user1_def)

lemma get_unknown_fields:
  "route get_unknown = UsersId (str ''unknown'')" "req_method get_unknown = GET"
  "body_error get_unknown = None"
  by (simp_all add: get_unknown_def get_user1_def)

lemma get_blank_fields:
  "route get_blank = UsersId blank_id" "req_method get_blank = GET" "body_error get_blank = None"
  by (simp_all add: get_blank_def get_user1_def)

lemma localhost_admitted:
  "domainRestriction get_user1 = Next" "domainRestriction get_unknown = Next"
  "domainRestriction get_blank = Next"
  by code_simp+

lemma evil_denied:
  "domainRestriction evil_health = Responded forbidden"
  "domainRestriction evil_health_bad_body = Responded forbidden"
  by code_simp+

lemma evil_fields:
  "route evil_health = Health" "req_method evil_health = GET" "body_error evil_health = None"
  "route evil_health_bad_body = Health" "req_method evil_health_bad_body = GET"
  "body_error evil_health_bad_body = Some (str ''Unexpected end of JSON input'')"
  by (simp_all add: evil_health_def evil_health_bad_body_def)

subsection \<open>The claims\<close>

text \<open>
  C1. For every request, the admission filter calls \<^verbatim>\<open>next()\<close> if and only if the rule of
  the specification holds of the Host, Origin and Referer headers, an absent header read
  as the empty string. When the rule fails, the filter responds with status 403 and the
  body \<^verbatim>\<open>{error: "Forbidden", message: <fixed text>}\<close>, and whatever layers follow it in
  the stack, none of them runs: the response is the filter's and the store is untouched.
\<close>

theorem admission_decision:
  "(domainRestriction req = Next) = spec_allow req \<and>
   (\<not> spec_allow req \<longrightarrow>
      domainRestriction req = Responded forbidden \<and>
      status forbidden = 403 \<and>
      body forbidden = JsonBody (JsonObject
         [(str ''error'', JsonString (str ''Forbidden'')),
          (str ''message'', JsonString (str
             ''Access denied. This API only accepts traffic from example.com or localhost:3000.''))]) \<and>
      (\<forall>e ls db. dispatch e (DomainRestriction # ls) None req db = (forbidden, db)))"
  using domainRestriction_allow [of req] domainRestriction_deny [of req]
  by (auto simp: forbidden_def dest: dispatch_deny)

theorem admission_decision_witness:
  "\<not> spec_allow evil_health \<and>
   domainRestriction evil_health = Responded forbidden \<and>
   dispatch env0 [DomainRestriction, HealthRoute] None evil_health seed = (forbidden, seed) \<and>
   spec_allow get_user1 \<and> domainRestriction get_user1 = Next"
proof -
  have rule: "\<not> spec_allow evil_health"
    using admission_decision [of evil_health] evil_denied(1) by simp
  have "spec_allow get_user1"
    using admission_decision [of get_user1] localhost_admitted(1) by simp
  then show ?thesis
    using admission_decision [of evil_health] rule localhost_admitted(1) by blast
qed

text \<open>
  C2. For every request \<^verbatim>\<open>GET /users/{id}\<close> whose id is not empty after trimming, with a
  store whose read succeeds: if the table holds a row for the id, the route responds with
  status 200 and the body \<^verbatim>\<open>{id, name}\<close> of that row; if it holds none, the route
  responds with status 404 and the body
  \<^verbatim>\<open>{error: "Not Found", message: "User with ID '<id>' not found"}\<close>. A request that the
  body parser and the admission filter pass on gets this response from the served stack.
\<close>

theorem get_user_by_id:
  "route req = UsersId i \<Longrightarrow> req_method req = GET \<Longrightarrow> trim i \<noteq> [] \<Longrightarrow> failure db = None \<Longrightarrow>
     (\<forall>n. table db i = Some n \<longrightarrow>
        fst (userRoutes req db) =
          Responded \<lparr>status = 200, body = JsonBody (JsonObject
            [(str ''id'', JsonString i), (str ''name'', JsonString n)])\<rparr> \<and>
        (body_error req = None \<and> domainRestriction req = Next \<longrightarrow>
           fst (dispatch e (served swagger) None req db) =
             \<lparr>status = 200, body = JsonBody (JsonObject
               [(str ''id'', JsonString i), (str ''name'', JsonString n)])\<rparr>)) \<and>
     (table db i = None \<longrightarrow>
        fst (userRoutes req db) =
          Responded \<lparr>status = 404, body = JsonBody (JsonObject
            [(str ''error'', JsonString (str ''Not Found'')),
             (str ''message'',
              JsonString (str ''User with ID '' @ [0x27] @ i @ [0x27] @ str '' not found''))])\<rparr> \<and>
        (body_error req = None \<and> domainRestriction req = Next \<longrightarrow>
           fst (dispatch e (served swagger) None req db) =
             \<lparr>status = 404, body = JsonBody (JsonObject
               [(str ''error'', JsonString (str ''Not Found'')),
                (str ''message'',
                 JsonString (str ''User with ID '' @ [0x27] @ i @ [0x27] @ str '' not found''))])\<rparr>))"
proof -
  assume r: "route req = UsersId i" "req_method req = GET"
    and ok: "trim i \<noteq> []" "failure db = None"
  have route: "userRoutes req db = getUser (JString i) db"
    using r ok by (simp add: userRoutes_get getUserRoute_pass)
  have stack: "body_error req = None \<and> domainRestriction req = Next \<longrightarrow>
      dispatch e (served swagger) None req db =
       (case getUser (JString i) db of
          (Responded r, db') \<Rightarrow> (r, db')
        | (NextError err, db') \<Rightarrow> dispatch e [ErrorHandler, GraphqlMount] (Some err) req db'
        | (Next, db') \<Rightarrow> dispatch e [GraphqlMount] None req db')"
    using r ok served_users [of req i e swagger db] by (simp add: getUserRoute_pass)
  show ?thesis
    using route stack getUser_found [OF ok(2), of i] getUser_absent [OF ok(2), of i]
    by (simp add: not_found_def)
qed

theorem get_user_by_id_witness:
  "fst (userRoutes get_user1 seed) =
     Responded \<lparr>status = 200, body = JsonBody (JsonObject
       [(str ''id'', JsonString (str ''user1'')), (str ''name'', JsonString (str ''John Doe''))])\<rparr> \<and>
   fst (dispatch env0 (served True) None get_user1 seed) =
     \<lparr>status = 200, body = JsonBody (JsonObject
       [(str ''id'', JsonString (str ''user1'')), (str ''name'', JsonString (str ''John Doe''))])\<rparr> \<and>
   fst (userRoutes get_unknown seed) =
     Responded \<lparr>status = 404, body = JsonBody (JsonObject
       [(str ''error'', JsonString (str ''Not Found'')),
        (str ''message'',
         JsonString (str ''User with ID '' @ [0x27] @ str ''unknown'' @ [0x27] @ str '' not found''))])\<rparr> \<and>
   status (fst (dispatch env0 (served True) None get_unknown seed)) = 404"
  using get_user_by_id [OF get_user1_fields(1) get_user1_fields(2) trim_ids(1) seed_rows(1),
      of env0 True]
    get_user_by_id [OF get_unknown_fields(1) get_unknown_fields(2) trim_ids(2) seed_rows(1),
      of env0 True]
    seed_rows get_user1_fields get_unknown_fields localhost_admitted
  by simp


text \<open>
  C3. For every id that is not empty after trimming, with a store whose read succeeds,
  the resolver of \<^verbatim>\<open>user(id)\<close> returns the user \<^verbatim>\<open>{id, name}\<close> when the table holds a
  row for the id, and returns null, not an error, when it holds none: the response is then
  \<^verbatim>\<open>{data: {user: null}}\<close> with no \<^verbatim>\<open>errors\<close> entry, while the REST route answers the same
  id with status 404.
\<close>

theorem resolver_found_or_null:
  "trim i \<noteq> [] \<Longrightarrow> failure db = None \<Longrightarrow>
     (\<forall>n. table db i = Some n \<longrightarrow>
        fst (user_resolver (JString i) db) = Inr (Some \<lparr>user_id = i, user_name = n\<rparr>) \<and>
        fst (user_query (JString i) db) =
          JsonObject [(str ''data'', JsonObject [(str ''user'', JsonObject
            [(str ''id'', JsonString i), (str ''name'', JsonString n)])])]) \<and>
     (table db i = None \<longrightarrow>
        fst (user_resolver (JString i) db) = Inr None \<and>
        (\<exists>fields. fst (user_query (JString i) db) = JsonObject fields \<and>
           fields = [(str ''data'', JsonObject [(str ''user'', JsonNull)])] \<and>
           map_of fields (str ''errors'') = None) \<and>
        fst (getUserRoute (JString i) db) = Responded (not_found i) \<and>
        status (not_found i) = 404)"
proof (intro conjI allI impI)
  assume ok: "trim i \<noteq> []" "failure db = None"
  {
    fix n assume row: "table db i = Some n"
    show res: "fst (user_resolver (JString i) db) = Inr (Some \<lparr>user_id = i, user_name = n\<rparr>)"
      using ok row by (simp add: user_resolver_pass findById_result)
    show "fst (user_query (JString i) db) =
        JsonObject [(str ''data'', JsonObject [(str ''user'', JsonObject
          [(str ''id'', JsonString i), (str ''name'', JsonString n)])])]"
      using user_query_found [OF res] by (simp add: user_json_def)
  }
  {
    assume none: "table db i = None"
    show res: "fst (user_resolver (JString i) db) = Inr None"
      using ok none by (simp add: user_resolver_pass findById_result)
    show "\<exists>fields. fst (user_query (JString i) db) = JsonObject fields \<and>
           fields = [(str ''data'', JsonObject [(str ''user'', JsonNull)])] \<and>
           map_of fields (str ''errors'') = None"
      using user_query_absent [OF res] errors_not_data by simp
    show "fst (getUserRoute (JString i) db) = Responded (not_found i)"
      using ok none getUser_absent [of db i] by (simp add: getUserRoute_pass)
    show "status (not_found i) = 404"
      by (simp add: not_found_def)
  }
qed

theorem resolver_found_or_null_witness:
  "fst (user_resolver (JString (str ''user1'')) seed) =
     Inr (Some \<lparr>user_id = str ''user1'', user_name = str ''John Doe''\<rparr>) \<and>
   fst (user_resolver (JString (str ''unknown'')) seed) = Inr None \<and>
   fst (user_query (JString (str ''unknown'')) seed) =
     JsonObject [(str ''data'', JsonObject [(str ''user'', JsonNull)])]"
  using resolver_found_or_null [OF trim_ids(1) seed_rows(1)]
    resolver_found_or_null [OF trim_ids(2) seed_rows(1)] seed_rows
  by simp

text \<open>
  C4. For every id string that is empty or consists of blanks only, so that it is empty
  after trimming, both surfaces reject it with the message
  \<^verbatim>\<open>"Invalid user ID provided"\<close>: the REST route passes an \<^verbatim>\<open>ApiError\<close> of status 400 on,
  which the error normalizer turns into a response of status 400, and the resolver throws
  an error. Neither calls \<^verbatim>\<open>findById\<close>: the store and its record of queries are unchanged.
\<close>

theorem blank_id_rejected:
  "\<forall>c\<in>set s. isWhiteSpace c \<Longrightarrow>
     trim s = [] \<and>
     validateUserId (JString s) = NextError (ApiError 400 (str ''Invalid user ID provided'')) \<and>
     getUserRoute (JString s) db =
       (NextError (ApiError 400 (str ''Invalid user ID provided'')), db) \<and>
     snd (errorHandler (ApiError 400 (str ''Invalid user ID provided''))) =
       Inr \<lparr>status = 400, body = JsonBody (JsonObject
         [(str ''error'', JsonString (str ''ApiError'')),
          (str ''message'', JsonString (str ''Invalid user ID provided''))])\<rparr> \<and>
     (body_error req = None \<and> domainRestriction req = Next \<and> route req = UsersId s \<and>
      req_method req = GET \<longrightarrow>
        dispatch e (served swagger) None req db =
          (\<lparr>status = 400, body = JsonBody (JsonObject
             [(str ''error'', JsonString (str ''ApiError'')),
              (str ''message'', JsonString (str ''Invalid user ID provided''))])\<rparr>, db)) \<and>
     user_resolver (JString s) db = (Inl (Error (str ''Invalid user ID provided'')), db) \<and>
     queries (snd (getUserRoute (JString s) db)) = queries db \<and>
     queries (snd (user_resolver (JString s) db)) = queries db"
proof -
  assume "\<forall>c\<in>set s. isWhiteSpace c"
  then have blank: "trim s = []"
    by (simp only: trim_Nil_iff)
  then have "\<not> (\<exists>t. JString s = JString t \<and> trim t \<noteq> [])"
    by simp
  then have res: "user_resolver (JString s) db = (Inl (Error (str ''Invalid user ID provided'')), db)"
    by (rule user_resolver_reject)
  have val: "validateUserId (JString s) = NextError (ApiError 400 (str ''Invalid user ID provided''))"
    using blank by (simp add: validateUserId_def)
  have route: "getUserRoute (JString s) db =
      (NextError (ApiError 400 (str ''Invalid user ID provided'')), db)"
    using blank by (rule getUserRoute_reject)
  note norm = errorHandler_invalid_id
  have stack: "body_error req = None \<and> domainRestriction req = Next \<and> route req = UsersId s \<and>
      req_method req = GET \<longrightarrow>
        dispatch e (served swagger) None req db =
          (\<lparr>status = 400, body = JsonBody (JsonObject
             [(str ''error'', JsonString (str ''ApiError'')),
              (str ''message'', JsonString (str ''Invalid user ID provided''))])\<rparr>, db)"
    using served_users [of req s e swagger db] route norm by simp
  show ?thesis
    using blank res val route stack norm by simp
qed

theorem blank_id_rejected_witness:
  "validateUserId (JString blank_id) = NextError (ApiError 400 (str ''Invalid user ID provided'')) \<and>
   getUserRoute (JString blank_id) seed =
     (NextError (ApiError 400 (str ''Invalid user ID provided'')), seed) \<and>
   fst (dispatch env0 (served True) None get_blank seed) =
       \<lparr>status = 400, body = JsonBody (JsonObject
         [(str ''error'', JsonString (str ''ApiError'')),
          (str ''message'', JsonString (str ''Invalid user ID provided''))])\<rparr> \<and>
   user_resolver (JString blank_id) seed = (Inl (Error (str ''Invalid user ID provided'')), seed) \<and>
   validateUserId (JString []) = NextError (ApiError 400 (str ''Invalid user ID provided'')) \<and>
   user_resolver (JString []) seed = (Inl (Error (str ''Invalid user ID provided'')), seed)"
proof -
  have b: "\<forall>c\<in>set blank_id. isWhiteSpace c"
    by (simp add: blank_id_def isWhiteSpace_def)
  have e: "\<forall>c\<in>set ([] :: js_string). isWhiteSpace c"
    by simp
  show ?thesis
    using blank_id_rejected [OF b, where db = seed and req = get_blank and e = env0 and swagger = True]
      blank_id_rejected [OF e, where db = seed and req = get_blank and e = env0 and swagger = True]
      get_blank_fields localhost_admitted(3)
    by simp
qed

text \<open>
  C5, as amended. For every error that reaches the error normalizer: an \<^verbatim>\<open>ApiError\<close>
  whose status code goes out with a body (200 to 999 other than 204, 205 and 304) gives a
  response with exactly that status code and the body
  \<^verbatim>\<open>{error: "ApiError", message: <text>}\<close>, the name and the message of the error; an error
  that is not an \<^verbatim>\<open>ApiError\<close> gives status 500 and the body
  \<^verbatim>\<open>{error: "Internal Server Error", message: "An unexpected error occurred"}\<close>, the same
  for every failure detail, which goes to the console only. A pending error of either kind
  that meets the normalizer's layer is answered by it.
\<close>

theorem errorHandler_envelope:
  "(200 \<le> statusCode \<and> statusCode \<le> 999 \<and> statusCode \<noteq> 204 \<and> statusCode \<noteq> 205 \<and>
    statusCode \<noteq> 304 \<longrightarrow>
      snd (errorHandler (ApiError statusCode m)) =
        Inr \<lparr>status = statusCode,
             body = JsonBody (JsonObject
               [(str ''error'', JsonString (str ''ApiError'')),
                (str ''message'', JsonString m)])\<rparr> \<and>
      dispatch e (ErrorHandler # ls) (Some (ApiError statusCode m)) req db =
        (\<lparr>status = statusCode,
          body = JsonBody (JsonObject
            [(str ''error'', JsonString (str ''ApiError'')),
             (str ''message'', JsonString m)])\<rparr>, db)) \<and>
   snd (errorHandler (Error detail)) =
     Inr \<lparr>status = 500,
          body = JsonBody (JsonObject
            [(str ''error'', JsonString (str ''Internal Server Error'')),
             (str ''message'', JsonString (str ''An unexpected error occurred''))])\<rparr> \<and>
   fst (errorHandler (Error detail)) = [str ''Error:'', detail] \<and>
   dispatch e (ErrorHandler # ls) (Some (Error detail)) req db =
     (\<lparr>status = 500,
       body = JsonBody (JsonObject
         [(str ''error'', JsonString (str ''Internal Server Error'')),
          (str ''message'', JsonString (str ''An unexpected error occurred''))])\<rparr>, db)"
proof -
  have other: "snd (errorHandler (Error detail)) = Inr internal_error"
    "fst (errorHandler (Error detail)) = [str ''Error:'', detail]"
    by (simp_all add: errorHandler_def)
  have api: "200 \<le> statusCode \<and> statusCode \<le> 999 \<and> statusCode \<noteq> 204 \<and> statusCode \<noteq> 205 \<and>
      statusCode \<noteq> 304 \<longrightarrow>
        snd (errorHandler (ApiError statusCode m)) =
          Inr \<lparr>status = statusCode,
               body = JsonBody (JsonObject
                 [(str ''error'', JsonString (str ''ApiError'')),
                  (str ''message'', JsonString m)])\<rparr>"
    by (simp add: errorHandler_def status_json_body)
  show ?thesis
    using other api by (simp add: internal_error_def)
qed

theorem errorHandler_envelope_witness:
  "snd (errorHandler (ApiError 400 (str ''Invalid user ID provided''))) =
     Inr \<lparr>status = 400,
          body = JsonBody (JsonObject
            [(str ''error'', JsonString (str ''ApiError'')),
             (str ''message'', JsonString (str ''Invalid user ID provided''))])\<rparr> \<and>
   dispatch env0 [ErrorHandler] (Some (ApiError 404 (str ''User not found''))) get_user1 seed =
     (\<lparr>status = 404,
       body = JsonBody (JsonObject
         [(str ''error'', JsonString (str ''ApiError'')),
          (str ''message'', JsonString (str ''User not found''))])\<rparr>, seed)"
  using errorHandler_envelope [of 400 "str ''Invalid user ID provided''"]
    errorHandler_envelope [of 404 "str ''User not found''" env0 "[]" get_user1 seed]
  by simp

text \<open>
  C5 as first stated fails: an \<^verbatim>\<open>ApiError\<close> of status 204 is answered with status 204 and
  no body, so without the envelope, and for an \<^verbatim>\<open>ApiError\<close> of status 0 the normalizer
  sends no response at all: sending it throws.
\<close>

theorem errorHandler_204_counterexample:
  "snd (errorHandler (ApiError 204 (str ''No Content''))) =
     Inr \<lparr>status = 204, body = OtherBody []\<rparr> \<and>
   snd (errorHandler (ApiError 204 (str ''No Content''))) \<noteq>
     Inr \<lparr>status = 204,
          body = JsonBody (JsonObject
            [(str ''error'', JsonString (str ''ApiError'')),
             (str ''message'', JsonString (str ''No Content''))])\<rparr> \<and>
   snd (errorHandler (ApiError 0 (str ''No Content''))) =
     Inl (Error (str ''Invalid status code: 0''))"
  by (simp add: errorHandler_def status_json_def str_def)

text \<open>
  C6. Some request whose host is neither an allowed entry nor a subdomain of one is
  admitted all the same: \<^verbatim>\<open>notexample.com.evil.org\<close> fails the rule for Host, yet a request
  naming it in Origin, and one naming it in Referer, pass the filter, because the header
  contains \<^verbatim>\<open>example.com\<close> as a substring.
\<close>

theorem lookalike_admitted:
  "\<not> spec_host_rule (str ''notexample.com.evil.org'') \<and>
   host lookalike_origin = Some (str ''notexample.com.evil.org'') \<and>
   origin lookalike_origin = Some (str ''https://notexample.com.evil.org'') \<and>
   domainRestriction lookalike_origin = Next \<and>
   host lookalike_referer = Some (str ''notexample.com.evil.org'') \<and>
   referer lookalike_referer = Some (str ''https://notexample.com.evil.org/page'') \<and>
   domainRestriction lookalike_referer = Next"
proof -
  have "\<not> isAllowedHost lookalike_origin"
    by code_simp
  then have "\<not> spec_host_rule (str ''notexample.com.evil.org'')"
    by (simp add: isAllowedHost_spec lookalike_origin_def header_def)
  moreover have "domainRestriction lookalike_origin = Next"
    by code_simp
  moreover have "domainRestriction lookalike_referer = Next"
    by code_simp
  ultimately show ?thesis
    by (simp add: lookalike_origin_def lookalike_referer_def)
qed


text \<open>
  C7. The validation of the REST route and the validation of the resolver accept the same
  ids: a value passes either one if and only if it is a string that is not empty after
  trimming. The route then calls \<^verbatim>\<open>next()\<close> and the resolver goes on to \<^verbatim>\<open>findById\<close>;
  otherwise each rejects, with the same message \<^verbatim>\<open>"Invalid user ID provided"\<close>.
\<close>

theorem validation_agrees:
  "(validateUserId v = Next) = (\<exists>s. v = JString s \<and> trim s \<noteq> []) \<and>
   (user_resolver v db = findById (the_string v) db) = (\<exists>s. v = JString s \<and> trim s \<noteq> []) \<and>
   (validateUserId v = Next \<or>
      validateUserId v = NextError (ApiError 400 (str ''Invalid user ID provided''))) \<and>
   (user_resolver v db = findById (the_string v) db \<or>
      user_resolver v db = (Inl (Error (str ''Invalid user ID provided'')), db)) \<and>
   message (ApiError 400 (str ''Invalid user ID provided'')) =
     message (Error (str ''Invalid user ID provided''))"
proof (cases "\<exists>s. v = JString s \<and> trim s \<noteq> []")
  case True
  then obtain s where "v = JString s" "trim s \<noteq> []"
    by blast
  then show ?thesis
    using validateUserId_Next [of v] user_resolver_pass [of s db] by simp
next
  case False
  then have res: "user_resolver v db = (Inl (Error (str ''Invalid user ID provided'')), db)"
    by (rule user_resolver_reject)
  have differs: "user_resolver v db \<noteq> findById (the_string v) db"
    using findById_changes [of "the_string v" db "Inl (Error (str ''Invalid user ID provided''))"]
    by (simp only: res) (rule not_sym)
  have val: "validateUserId v \<noteq> Next"
    using False validateUserId_Next [of v] by simp
  show ?thesis
    using False res differs val validateUserId_reject [OF val] by simp
qed

theorem validation_agrees_witness:
  "validateUserId (JString padded_id) = Next \<and>
   user_resolver (JString padded_id) seed = findById padded_id seed \<and>
   validateUserId JUndefined = NextError (ApiError 400 (str ''Invalid user ID provided'')) \<and>
   user_resolver JUndefined seed = (Inl (Error (str ''Invalid user ID provided'')), seed)"
proof -
  have "trim padded_id \<noteq> []"
    by (simp add: padded_id_def trim_def str_def isWhiteSpace_def)
  then have "\<exists>s. JString padded_id = JString s \<and> trim s \<noteq> []"
    by simp
  then show ?thesis
    using validation_agrees [of "JString padded_id" seed] validation_agrees [of JUndefined seed]
    by auto
qed

text \<open>
  C8. \<^verbatim>\<open>App.getInstance()\<close> is idempotent: for every run of one or more calls in a new
  process, every call returns the same reference, the constructor has run exactly once
  (the heap holds one \<^verbatim>\<open>App\<close>), and the one configuration that every caller sees is the
  stack that the first call's construction registered.
\<close>

theorem getInstance_once:
  "envs \<noteq> [] \<Longrightarrow>
     fst (getInstances envs start) = replicate (length envs) 0 \<and>
     App_instance (snd (getInstances envs start)) = Some 0 \<and>
     length (heap (snd (getInstances envs start))) = 1 \<and>
     heap (snd (getInstances envs start)) ! 0 =
       initializeErrorHandling (initializeRoutes (hd envs) (initializeMiddleware []))"
proof -
  assume "envs \<noteq> []"
  then obtain swagger rest where envs: "envs = swagger # rest"
    by (cases envs) auto
  let ?p = "\<lparr>App_instance = Some 0,
    heap = [initializeErrorHandling (initializeRoutes swagger (initializeMiddleware []))]\<rparr>"
  have "getInstances rest ?p = (replicate (length rest) 0, ?p)"
    by (rule getInstances_again) simp
  then show ?thesis
    by (simp add: envs getInstance_start)
qed

theorem getInstance_once_witness:
  "fst (getInstances [True, False, True] start) = [0, 0, 0] \<and>
   length (heap (snd (getInstances [True, False, True] start))) = 1 \<and>
   heap (snd (getInstances [True, False, True] start)) ! 0 =
     [JsonParser, DomainRestriction, SwaggerUi, UserRoutes, HealthRoute, ErrorHandler]"
proof -
  have "[True, False, True] \<noteq> []"
    by simp
  from getInstance_once [OF this] show ?thesis
    by (simp add: constructed_stack)
qed

text \<open>
  C9, as amended. The admission filter gates every route of the served stack, and
  \<^verbatim>\<open>GET /health\<close> is not exempt: for every request to it whose Host, Origin and Referer
  all fail the rule, the response is 403 with the Forbidden body when the body parser, which
  runs before the filter, passes the request on, and the normalizer's 500 when the parser
  raises an error; in neither case is it the response of the health route.
\<close>

theorem health_is_gated:
  "route req = Health \<Longrightarrow> req_method req = GET \<Longrightarrow> \<not> spec_allow req \<Longrightarrow>
     (body_error req = None \<longrightarrow> dispatch e (served swagger) None req db = (forbidden, db)) \<and>
     (body_error req \<noteq> None \<longrightarrow> dispatch e (served swagger) None req db = (internal_error, db)) \<and>
     fst (dispatch e (served swagger) None req db) \<noteq> health e"
proof -
  assume "\<not> spec_allow req"
  then have denied: "domainRestriction req = Responded forbidden"
    by (rule domainRestriction_deny)
  have "status (health e) = 200" "status forbidden = 403" "status internal_error = 500"
    by (simp_all add: health_def forbidden_def internal_error_def)
  then have "forbidden \<noteq> health e" "internal_error \<noteq> health e"
    by auto
  then show ?thesis
    using served_denied [OF denied, of e swagger db] served_bad_body [of req _ e swagger db]
    by (cases "body_error req") auto
qed

theorem health_is_gated_witness:
  "\<not> spec_allow evil_health \<and>
   dispatch env0 (served True) None evil_health seed = (forbidden, seed) \<and>
   \<not> spec_allow evil_health_bad_body \<and>
   dispatch env0 (served True) None evil_health_bad_body seed = (internal_error, seed)"
proof -
  have denied: "\<not> spec_allow evil_health" "\<not> spec_allow evil_health_bad_body"
    using evil_denied domainRestriction_allow [of evil_health]
      domainRestriction_allow [of evil_health_bad_body]
    by simp_all
  show ?thesis
    using health_is_gated [OF evil_fields(1) evil_fields(2) denied(1), of env0 True seed]
      health_is_gated [OF evil_fields(4) evil_fields(5) denied(2), of env0 True seed]
      evil_fields(3) evil_fields(6) denied
    by simp
qed

text \<open>
  C9 as first stated fails: \<^verbatim>\<open>GET /health\<close> from \<^verbatim>\<open>evil.com\<close>, which the filter would deny,
  with a body that the JSON parser refuses, is answered with status 500, not 403.
\<close>

theorem health_403_counterexample:
  "route evil_health_bad_body = Health \<and> req_method evil_health_bad_body = GET \<and>
   domainRestriction evil_health_bad_body = Responded forbidden \<and>
   status (fst (dispatch env0 (served True) None evil_health_bad_body seed)) = 500 \<and>
   fst (dispatch env0 (served True) None evil_health_bad_body seed) \<noteq> forbidden"
proof -
  have "dispatch env0 (served True) None evil_health_bad_body seed = (internal_error, seed)"
    using evil_fields(6) by (rule served_bad_body)
  moreover have "status internal_error = 500" "status forbidden = 403"
    by (simp_all add: internal_error_def forbidden_def)
  ultimately show ?thesis
    using evil_denied(2) evil_fields by auto
qed

text \<open>
  C10. Both surfaces give the lookup service the id as it came, not trimmed: for every id
  that is not empty after trimming, validation passes, \<^verbatim>\<open>findById\<close> is called once with
  the id itself on either surface, and when the store has no row for it the 404 message
  of the REST route quotes the id as it came.
\<close>

theorem untrimmed_id_looked_up:
  "trim s \<noteq> [] \<Longrightarrow>
     validateUserId (JString s) = Next \<and>
     queries (snd (getUserRoute (JString s) db)) = queries db @ [s] \<and>
     queries (snd (user_resolver (JString s) db)) = queries db @ [s] \<and>
     (failure db = None \<and> table db s = None \<longrightarrow>
        fst (getUserRoute (JString s) db) =
          Responded \<lparr>status = 404, body = JsonBody (JsonObject
            [(str ''error'', JsonString (str ''Not Found'')),
             (str ''message'',
              JsonString (str ''User with ID '' @ [0x27] @ s @ [0x27] @ str '' not found''))])\<rparr>)"
proof -
  assume ok: "trim s \<noteq> []"
  have "validateUserId (JString s) = Next"
    using ok validateUserId_Next [of "JString s"] by simp
  moreover have "queries (snd (getUserRoute (JString s) db)) = queries db @ [s]"
    using ok by (simp add: getUserRoute_pass getUser_queries)
  moreover have "queries (snd (user_resolver (JString s) db)) = queries db @ [s]"
    using ok by (simp add: user_resolver_pass findById_queries)
  moreover have "failure db = None \<and> table db s = None \<longrightarrow>
        fst (getUserRoute (JString s) db) = Responded (not_found s)"
    using ok getUser_absent [of db s] by (simp add: getUserRoute_pass)
  ultimately show ?thesis
    by (simp add: not_found_def)
qed

theorem untrimmed_id_looked_up_witness:
  "trim padded_id = str ''user1'' \<and> padded_id \<noteq> str ''user1'' \<and>
   validateUserId (JString padded_id) = Next \<and>
   queries (snd (getUserRoute (JString padded_id) seed)) = [padded_id] \<and>
   queries (snd (user_resolver (JString padded_id) seed)) = [padded_id] \<and>
   fst (getUserRoute (JString padded_id) seed) =
     Responded \<lparr>status = 404, body = JsonBody (JsonObject
       [(str ''error'', JsonString (str ''Not Found'')),
        (str ''message'',
         JsonString (str ''User with ID '' @ [0x27] @ padded_id @ [0x27] @ str '' not found''))])\<rparr>"
proof -
  have t: "trim padded_id = str ''user1''"
    by (simp add: padded_id_def trim_def str_def isWhiteSpace_def)
  then have ok: "trim padded_id \<noteq> []"
    by (simp add: str_def)
  have d: "padded_id \<noteq> str ''user1''"
    by (simp add: padded_id_def str_def)
  have row: "failure seed = None \<and> table seed padded_id = None"
    by (simp add: seed_def padded_id_def str_def)
  show ?thesis
    using untrimmed_id_looked_up [OF ok, of seed] t d row seed_rows(4) by simp
qed

end
